theory Spec2Isabelle
  imports Complex_Main "HOL-Library.Sublist"
begin

section \<open>JavaScript values and built-ins used by the program\<close>

text \<open>
  Numbers are modelled as rationals: every finite double is a rational, and comparison
  (\<open>>=\<close>, \<open>>\<close>) and \<open>toFixed\<close> act on the exact value of a double. \<open>NaN\<close> and the
  infinities are outside the type. Dates are integers: milliseconds since the epoch, as
  \<open>Date.now()\<close> and \<open>getTime()\<close> return them.

  The only arithmetic the program does on fractions is the chain of multiplications in
  \<open>calculatePriority\<close>. There the doubles are rounded after each product; on each of the
  48 combinations of factors the rounded product and the exact one lie on the same side
  of every half-integer, so \<open>Math.round\<close> returns the same integer for both.
\<close>

text \<open>
  Property lookup \<open>obj[key]\<close> on an object literal: an own property, else a property
  inherited from \<open>Object.prototype\<close> (a function or an object, never a string or a
  number), else \<open>undefined\<close>.
\<close>

definition object_prototype_keys :: "string list" where
  "object_prototype_keys =
     [''constructor'', ''__proto__'', ''hasOwnProperty'', ''isPrototypeOf'',
      ''propertyIsEnumerable'', ''toLocaleString'', ''toString'', ''valueOf'',
      ''__defineGetter__'', ''__defineSetter__'', ''__lookupGetter__'', ''__lookupSetter__'']"

datatype 'a property = Own 'a | Inherited | Absent

definition js_get :: "(string \<times> 'a) list \<Rightarrow> string \<Rightarrow> 'a property" where
  "js_get obj k =
     (case map_of obj k of
        Some v \<Rightarrow> Own v
      | None \<Rightarrow> if k \<in> set object_prototype_keys then Inherited else Absent)"

text \<open>
  What a lookup with a fallback (\<open>obj[key] || dflt\<close>) returns: a value of the expected
  type, or the inherited function or object itself, which is truthy.
\<close>

datatype 'a jsval = Val 'a | ObjectRef

text \<open>\<open>Math.round\<close>: the nearest integer, a tie going up.\<close>

definition js_round :: "rat \<Rightarrow> int" where
  "js_round x = \<lfloor>x + 1 / 2\<rfloor>"

text \<open>Decimal digits of a natural number, and of an integer as \<open>String(n)\<close> prints it.\<close>

definition digit_char :: "nat \<Rightarrow> char" where
  "digit_char d = ''0123456789'' ! d"

fun nat_digits :: "nat \<Rightarrow> string" where
  "nat_digits n =
     (if n < 10 then [digit_char n] else nat_digits (n div 10) @ [digit_char (n mod 10)])"

declare nat_digits.simps [simp del]

definition int_digits :: "int \<Rightarrow> string" where
  "int_digits i = (if i < 0 then ''-'' @ nat_digits (nat (- i)) else nat_digits (nat i))"

text \<open>
  \<open>Number.prototype.toFixed(f)\<close> for a number of magnitude below \<open>10^21\<close>: the integer
  \<open>n\<close> with \<open>n / 10^f\<close> nearest to the magnitude (the larger one on a tie), printed with
  \<open>f\<close> digits after the point and a minus sign for a negative number. From \<open>10^21\<close> on
  JavaScript switches to exponent notation, which this function does not model; the
  message builder below therefore takes the formatter as a parameter, and this one is
  the instance used on concrete readings.
\<close>

definition toFixed_decimal :: "nat \<Rightarrow> rat \<Rightarrow> string" where
  "toFixed_decimal f x =
     (let s = (if x < 0 then ''-'' else '''');
          y = (if x < 0 then - x else x);
          n = nat \<lfloor>y * 10 ^ f + 1 / 2\<rfloor>;
          m = nat_digits n
      in if f = 0 then s @ m
         else (let m2 = (if length m \<le> f
                         then replicate (f + 1 - length m) CHR ''0'' @ m else m);
                   k = length m2
               in s @ take (k - f) m2 @ ''.'' @ drop (k - f) m2))"

text \<open>
  \<open>xs.slice(-n)\<close>: the elements from index \<open>max (length - n) 0\<close> to the end.
\<close>

definition slice_last :: "nat \<Rightarrow> 'a list \<Rightarrow> 'a list" where
  "slice_last n xs = drop (if n \<le> length xs then length xs - n else 0) xs"


section \<open>The sensor model\<close>

record threshold_pair =
  warning :: rat
  critical :: rat

record geo_point =
  lat :: rat
  lng :: rat

record place =
  name :: string
  coordinates :: geo_point

record reading =
  reading_value :: rat
  quality :: string
  timestamp :: int

datatype alert_status = Normal | Warning | Critical

record current_reading =
  current_value :: rat
  current_timestamp :: int
  current_status :: alert_status

record sensor =
  sensorId :: string
  sensor_type :: string
  location :: place
  status :: string
  unit_of :: string
  thresholds :: threshold_pair
  currentReading :: "current_reading option"
  readings :: "reading list"

text \<open>\<open>getAlertStatus\<close>: critical is tested first, both tests are \<open>>=\<close>.\<close>

definition getAlertStatus :: "sensor \<Rightarrow> rat \<Rightarrow> alert_status" where
  "getAlertStatus s v =
     (if v \<ge> critical (thresholds s) then Critical
      else if v \<ge> warning (thresholds s) then Warning
      else Normal)"

text \<open>
  \<open>addReading\<close>: push the reading, keep the last 1000 once the array is longer than
  that, set \<open>currentReading\<close>. The timestamp \<open>t\<close> is the one value of \<open>new Date()\<close> the
  method reads; the final \<open>this.save()\<close> is the persistence layer's.
\<close>

definition addReading :: "sensor \<Rightarrow> rat \<Rightarrow> string \<Rightarrow> int \<Rightarrow> sensor" where
  "addReading s v q t =
     (let r = \<lparr>reading_value = v, quality = q, timestamp = t\<rparr>;
          pushed = readings s @ [r];
          kept = (if length pushed > 1000 then slice_last 1000 pushed else pushed)
      in s\<lparr>readings := kept,
            currentReading :=
              Some \<lparr>current_value = v, current_timestamp = t,
                    current_status = getAlertStatus s v\<rparr>\<rparr>)"


section \<open>Alerts\<close>

record sensor_data =
  data_value :: rat
  data_unit :: string
  data_sensorId :: string

text \<open>
  An alert document, with the fields of the schema that the simulator writes or queries.
  \<open>acknowledged\<close> and \<open>resolved\<close> default to false; \<open>createdAt\<close> is set when the
  document is saved.
\<close>

record alert =
  alert_id :: string
  alert_type :: string
  alert_message :: string
  alert_severity :: string
  alert_location :: string
  alert_coordinates :: geo_point
  alert_estimatedImpact :: nat
  alert_sensorData :: "sensor_data option"
  acknowledged :: bool
  resolved :: bool
  createdAt :: int

text \<open>The object handed to \<open>new Alert\<close>: the alert the simulator decides to create.\<close>

record new_alert =
  new_id :: string
  new_type :: "string jsval"
  new_message :: "string jsval"
  new_severity :: string
  new_location :: string
  new_coordinates :: geo_point
  new_estimatedImpact :: nat
  new_sensorData :: sensor_data

definition status_key :: "alert_status \<Rightarrow> string" where
  "status_key st = (case st of Normal \<Rightarrow> ''normal'' | Warning \<Rightarrow> ''warning''
                    | Critical \<Rightarrow> ''critical'')"

definition alert_type_mapping :: "(string \<times> string) list" where
  "alert_type_mapping =
     [(''seismic'', ''earthquake''),
      (''water_level'', ''flood''),
      (''wind_speed'', ''storm''),
      (''temperature'', ''heatwave''),
      (''air_quality'', ''pollution'')]"

definition getAlertType :: "string \<Rightarrow> string jsval" where
  "getAlertType sensorType =
     (case js_get alert_type_mapping sensorType of
        Own v \<Rightarrow> if v = [] then Val ''other'' else Val v
      | Inherited \<Rightarrow> ObjectRef
      | Absent \<Rightarrow> Val ''other'')"

definition messages :: "(nat \<Rightarrow> rat \<Rightarrow> string) \<Rightarrow> rat \<Rightarrow> string \<Rightarrow> (string \<times> string) list" where
  "messages toFixed v u =
     [(''seismic'', ''Seismic activity detected: '' @ toFixed 1 v @ '' magnitude''),
      (''water_level'', ''Rising water levels detected: '' @ toFixed 1 v @ u),
      (''wind_speed'', ''High wind speeds detected: '' @ toFixed 1 v @ '' '' @ u),
      (''temperature'', ''Extreme temperature detected: '' @ toFixed 1 v @ u),
      (''air_quality'', ''Poor air quality detected: AQI '' @ toFixed 0 v),
      (''humidity'', ''Unusual humidity levels: '' @ toFixed 1 v @ u),
      (''pressure'', ''Atmospheric pressure anomaly: '' @ toFixed 1 v @ '' '' @ u)]"

definition generateAlertMessage ::
    "(nat \<Rightarrow> rat \<Rightarrow> string) \<Rightarrow> string \<Rightarrow> rat \<Rightarrow> string \<Rightarrow> string jsval" where
  "generateAlertMessage toFixed sensorType v u =
     (case js_get (messages toFixed v u) sensorType of
        Own m \<Rightarrow> if m = [] then Val (''Sensor anomaly detected: '' @ toFixed 1 v @ '' '' @ u)
                 else Val m
      | Inherited \<Rightarrow> ObjectRef
      | Absent \<Rightarrow> Val (''Sensor anomaly detected: '' @ toFixed 1 v @ '' '' @ u))"

definition baseImpact :: "(string \<times> (string \<times> nat) list) list" where
  "baseImpact =
     [(''seismic'', [(''critical'', 10000), (''warning'', 5000)]),
      (''water_level'', [(''critical'', 8000), (''warning'', 4000)]),
      (''wind_speed'', [(''critical'', 6000), (''warning'', 3000)]),
      (''temperature'', [(''critical'', 12000), (''warning'', 6000)]),
      (''air_quality'', [(''critical'', 15000), (''warning'', 8000)])]"

text \<open>
  \<open>baseImpact[sensorType]?.[severity] || 1000\<close>. The second argument is the status
  \<open>getAlertStatus\<close> returned; none of its three names is a property of a function or of
  \<open>Object.prototype\<close>, so an inherited first lookup ends in \<open>undefined\<close> and in 1000.
\<close>

definition calculateImpact :: "string \<Rightarrow> alert_status \<Rightarrow> nat" where
  "calculateImpact sensorType st =
     (case js_get baseImpact sensorType of
        Own row \<Rightarrow> (case map_of row (status_key st) of
                      Some n \<Rightarrow> if n = 0 then 1000 else n
                    | None \<Rightarrow> 1000)
      | Inherited \<Rightarrow> 1000
      | Absent \<Rightarrow> 1000)"

text \<open>
  The filter of \<open>Alert.findOne\<close>: same sensor id, same type, same severity, unresolved,
  created at or after \<open>since\<close>.
\<close>

definition recent_match :: "string \<Rightarrow> string jsval \<Rightarrow> string \<Rightarrow> int \<Rightarrow> alert \<Rightarrow> bool" where
  "recent_match sid ty sev since a \<longleftrightarrow>
     (case alert_sensorData a of None \<Rightarrow> False | Some d \<Rightarrow> data_sensorId d = sid) \<and>
     Val (alert_type a) = ty \<and>
     alert_severity a = sev \<and>
     resolved a = False \<and>
     createdAt a \<ge> since"

definition findOne :: "(alert \<Rightarrow> bool) \<Rightarrow> alert list \<Rightarrow> alert option" where
  "findOne p store = find p store"

definition severity_of :: "alert_status \<Rightarrow> string" where
  "severity_of st = (if st = Critical then ''critical'' else ''warning'')"

text \<open>
  The alert part of one round of \<open>simulateSensorData\<close> for one sensor and its new
  value: \<open>now\<close> is \<open>Date.now()\<close> in the query, \<open>id_now\<close> is \<open>Date.now()\<close> in the id and
  \<open>rnd\<close> the random part of the id. The result is the alert to create, if any.
\<close>

definition alertFor ::
    "(nat \<Rightarrow> rat \<Rightarrow> string) \<Rightarrow> sensor \<Rightarrow> rat \<Rightarrow> int \<Rightarrow> int \<Rightarrow> string \<Rightarrow> alert list
       \<Rightarrow> new_alert option" where
  "alertFor toFixed s newValue now id_now rnd store =
     (let alertStatus = getAlertStatus s newValue in
      if alertStatus \<noteq> Normal then
        (case findOne (recent_match (sensorId s) (getAlertType (sensor_type s))
                         (severity_of alertStatus) (now - 5 * 60 * 1000)) store of
           Some recentAlert \<Rightarrow> None
         | None \<Rightarrow>
             Some \<lparr>new_id = ''alert-'' @ int_digits id_now @ ''-'' @ rnd,
                   new_type = getAlertType (sensor_type s),
                   new_message = generateAlertMessage toFixed (sensor_type s) newValue (unit_of s),
                   new_severity = severity_of alertStatus,
                   new_location = name (location s),
                   new_coordinates = coordinates (location s),
                   new_estimatedImpact = calculateImpact (sensor_type s) alertStatus,
                   new_sensorData = \<lparr>data_value = newValue, data_unit = unit_of s,
                                      data_sensorId = sensorId s\<rparr>\<rparr>)
      else None)"

text \<open>
  One sensor's round: the reading is added first (at time \<open>t\<close>), the alert is decided
  on the updated sensor.
\<close>

definition simulateSensor ::
    "(nat \<Rightarrow> rat \<Rightarrow> string) \<Rightarrow> sensor \<Rightarrow> rat \<Rightarrow> int \<Rightarrow> int \<Rightarrow> int \<Rightarrow> string \<Rightarrow> alert list
       \<Rightarrow> sensor \<times> new_alert option" where
  "simulateSensor toFixed s newValue t now id_now rnd store =
     (let s' = addReading s newValue ''good'' t
      in (s', alertFor toFixed s' newValue now id_now rnd store))"


text \<open>
  The document that \<open>alert.save()\<close> wrote at time \<open>t\<close> for the alert \<open>c\<close>, as long
  as nobody has resolved it: the fields given to \<open>new Alert\<close>, \<open>resolved\<close> at its
  default and \<open>createdAt\<close> the time of the save.
\<close>

definition saved_unresolved :: "new_alert \<Rightarrow> int \<Rightarrow> alert \<Rightarrow> bool" where
  "saved_unresolved c t a \<longleftrightarrow>
     alert_id a = new_id c \<and>
     Val (alert_type a) = new_type c \<and>
     Val (alert_message a) = new_message c \<and>
     alert_severity a = new_severity c \<and>
     alert_location a = new_location c \<and>
     alert_coordinates a = new_coordinates c \<and>
     alert_estimatedImpact a = new_estimatedImpact c \<and>
     alert_sensorData a = Some (new_sensorData c) \<and>
     resolved a = False \<and>
     createdAt a = t"


section \<open>The report priority\<close>

record affected_people =
  estimated :: "rat option"
  confirmed :: "rat option"

text \<open>
  The fields of a disaster report that \<open>calculatePriority\<close> reads. A severity that is
  \<open>undefined\<close> is looked up under the key \<open>''undefined''\<close>, as JavaScript does.
\<close>

record report =
  report_type :: string
  report_severity :: string
  report_createdAt :: int
  affectedPeople :: "affected_people option"

definition severityMultiplier :: "(string \<times> rat) list" where
  "severityMultiplier = [(''low'', 0.5), (''medium'', 1), (''high'', 1.5), (''critical'', 2)]"

definition highPriorityTypes :: "string list" where
  "highPriorityTypes = [''earthquake'', ''fire'', ''building_collapse'', ''gas_leak'']"

text \<open>
  \<open>priority *= severityMultiplier[this.severity] || 1\<close>. An inherited property is a
  function or an object; the product is then \<open>NaN\<close>, written \<open>None\<close>.
\<close>

definition severityImpact :: "string \<Rightarrow> rat \<Rightarrow> rat option" where
  "severityImpact sev p =
     (case js_get severityMultiplier sev of
        Own m \<Rightarrow> Some (p * (if m = 0 then 1 else m))
      | Inherited \<Rightarrow> None
      | Absent \<Rightarrow> Some (p * 1))"

definition typeImpact :: "string \<Rightarrow> rat \<Rightarrow> rat" where
  "typeImpact ty p = (if ty \<in> set highPriorityTypes then p * 1.5 else p)"

definition hoursOld :: "report \<Rightarrow> int \<Rightarrow> rat" where
  "hoursOld r now = of_int (now - report_createdAt r) / (1000 * 60 * 60)"

text \<open>The time factor: two statements, one after the other, neither an \<open>else\<close>.\<close>

definition timeFactor :: "rat \<Rightarrow> rat \<Rightarrow> rat" where
  "timeFactor h p =
     (let p1 = (if h > 24 then p * 1.2 else p);
          p2 = (if h > 48 then p1 * 1.5 else p1)
      in p2)"

text \<open>\<open>this.affectedPeople?.estimated > 10\<close>: false when either part is missing.\<close>

definition affectedFactor :: "affected_people option \<Rightarrow> rat \<Rightarrow> rat" where
  "affectedFactor ap p =
     (case ap of
        None \<Rightarrow> p
      | Some a \<Rightarrow> (case estimated a of
                     None \<Rightarrow> p
                   | Some e \<Rightarrow> if e > 10 then p * 1.3 else p))"

text \<open>
  \<open>calculatePriority\<close> at the time \<open>now\<close> that \<open>Date.now()\<close> returns. The result is
  the number stored in \<open>this.priority\<close> and returned; \<open>None\<close> is \<open>NaN\<close>.
\<close>

definition calculatePriority :: "report \<Rightarrow> int \<Rightarrow> int option" where
  "calculatePriority r now =
     (case severityImpact (report_severity r) 5 of
        None \<Rightarrow> None
      | Some p1 \<Rightarrow>
          (let p2 = typeImpact (report_type r) p1;
               p3 = timeFactor (hoursOld r now) p2;
               p4 = affectedFactor (affectedPeople r) p3
           in Some (min (js_round p4) 10)))"


section \<open>Example inputs\<close>

text \<open>The first of the default sensors that \<open>initializeSensors\<close> creates.\<close>

definition seismic_001 :: sensor where
  "seismic_001 =
     \<lparr>sensorId = ''seismic-001'', sensor_type = ''seismic'',
      location = \<lparr>name = ''Ghaziabad Central'',
                  coordinates = \<lparr>lat = 28.6692, lng = 77.4538\<rparr>\<rparr>,
      status = ''active'', unit_of = ''magnitude'',
      thresholds = \<lparr>warning = 3.0, critical = 4.0\<rparr>,
      currentReading = None, readings = []\<rparr>"


text \<open>
  The same sensor with both thresholds at 4: the schema requires the two numbers and
  does not order them.
\<close>

definition seismic_equal_thresholds :: sensor where
  "seismic_equal_thresholds = seismic_001\<lparr>thresholds := \<lparr>warning = 4, critical = 4\<rparr>\<rparr>"

text \<open>
  The alert that a reading of 4.2 on that sensor creates, with the id made at time 1000,
  and the document saved for it at time 1000.
\<close>

definition seismic_command :: new_alert where
  "seismic_command =
     \<lparr>new_id = ''alert-1000-k3j9x0q2a'',
      new_type = Val ''earthquake'',
      new_message = Val ''Seismic activity detected: 4.2 magnitude'',
      new_severity = ''critical'',
      new_location = ''Ghaziabad Central'',
      new_coordinates = \<lparr>lat = 28.6692, lng = 77.4538\<rparr>,
      new_estimatedImpact = 10000,
      new_sensorData = \<lparr>data_value = 4.2, data_unit = ''magnitude'',
                         data_sensorId = ''seismic-001''\<rparr>\<rparr>"

definition seismic_alert :: alert where
  "seismic_alert =
     \<lparr>alert_id = ''alert-1000-k3j9x0q2a'',
      alert_type = ''earthquake'',
      alert_message = ''Seismic activity detected: 4.2 magnitude'',
      alert_severity = ''critical'',
      alert_location = ''Ghaziabad Central'',
      alert_coordinates = \<lparr>lat = 28.6692, lng = 77.4538\<rparr>,
      alert_estimatedImpact = 10000,
      alert_sensorData = Some \<lparr>data_value = 4.2, data_unit = ''magnitude'',
                               data_sensorId = ''seismic-001''\<rparr>,
      acknowledged = False,
      resolved = False,
      createdAt = 1000\<rparr>"

text \<open>The same document after somebody resolved it.\<close>

definition seismic_alert_resolved :: alert where
  "seismic_alert_resolved = seismic_alert\<lparr>resolved := True\<rparr>"


section \<open>Property lookup\<close>

lemma js_get_not_inherited:
  "k \<notin> set object_prototype_keys \<Longrightarrow>
     js_get obj k = (case map_of obj k of Some v \<Rightarrow> Own v | None \<Rightarrow> Absent)"
  by (simp add: js_get_def)

lemma js_get_own: "map_of obj k = Some v \<Longrightarrow> js_get obj k = Own v"
  by (simp add: js_get_def)


section \<open>Evaluation on numerals\<close>

text \<open>
  The floor of a quotient of numerals, and the digits of a numeral, for the simplifier.
\<close>

lemma floor_rat_numeral_div [simp]:
  "\<lfloor>(numeral a :: rat) / numeral b\<rfloor> = numeral a div numeral b"
  using floor_divide_of_int_eq [of "numeral a" "numeral b", where ?'a = rat] by simp

lemma nat_digits_numeral [simp]:
  "nat_digits (numeral k) =
     (if (numeral k :: nat) < 10 then [digit_char (numeral k)]
      else nat_digits (numeral k div 10) @ [digit_char (numeral k mod 10)])"
  by (rule nat_digits.simps)

lemma nat_digits_small [simp]:
  "nat_digits 0 = ''0''" "nat_digits 1 = ''1''" "nat_digits (Suc 0) = ''1''"
  by (simp_all add: nat_digits.simps digit_char_def)

lemma toFixed_decimal_examples:
  "toFixed_decimal 1 85 = ''85.0''"
  "toFixed_decimal 1 1049.5 = ''1049.5''"
  "toFixed_decimal 1 4.2 = ''4.2''"
  "toFixed_decimal 1 4 = ''4.0''"
  "toFixed_decimal 1 4.5 = ''4.5''"
  "toFixed_decimal 1 61.25 = ''61.3''"
  "toFixed_decimal 1 0.04 = ''0.0''"
  "toFixed_decimal 0 184.5 = ''185''"
  by (simp_all add: toFixed_decimal_def Let_def digit_char_def)

lemma int_digits_examples:
  "int_digits 1000 = ''1000''"
  "int_digits 301000 = ''301000''"
  "int_digits 301001 = ''301001''"
  by (simp_all add: int_digits_def digit_char_def)


section \<open>The threshold classifier\<close>

lemma addReading_fields [simp]:
  "thresholds (addReading s v q t) = thresholds s"
  "sensorId (addReading s v q t) = sensorId s"
  "sensor_type (addReading s v q t) = sensor_type s"
  "unit_of (addReading s v q t) = unit_of s"
  "location (addReading s v q t) = location s"
  by (simp_all add: addReading_def Let_def)

lemma getAlertStatus_addReading [simp]:
  "getAlertStatus (addReading s v q t) x = getAlertStatus s x"
  by (simp add: getAlertStatus_def)

text \<open>
  The claim that a value equal to the warning threshold is always warning fails: with
  both thresholds at 4 the critical test comes first and takes the value 4.
\<close>

theorem getAlertStatus_equal_thresholds_counterexample:
  "warning (thresholds seismic_equal_thresholds) = 4 \<and>
   critical (thresholds seismic_equal_thresholds) = 4 \<and>
   getAlertStatus seismic_equal_thresholds (warning (thresholds seismic_equal_thresholds))
     = Critical \<and>
   getAlertStatus seismic_equal_thresholds (warning (thresholds seismic_equal_thresholds))
     \<noteq> Warning"
  by (simp add: getAlertStatus_def seismic_equal_thresholds_def)

text \<open>
  C3 (amended). The classifier returns critical when the value is at least the
  critical threshold, otherwise warning when it is at least the warning threshold,
  otherwise normal. Both tests are inclusive: a value equal to the critical threshold
  is critical; a value equal to the warning threshold is warning when the warning
  threshold lies below the critical one, and critical when it does not.
\<close>

theorem getAlertStatus_classifies:
  "(v \<ge> critical (thresholds s) \<longrightarrow> getAlertStatus s v = Critical) \<and>
   (v < critical (thresholds s) \<and> v \<ge> warning (thresholds s) \<longrightarrow> getAlertStatus s v = Warning) \<and>
   (v < critical (thresholds s) \<and> v < warning (thresholds s) \<longrightarrow> getAlertStatus s v = Normal) \<and>
   getAlertStatus s (critical (thresholds s)) = Critical \<and>
   (warning (thresholds s) < critical (thresholds s) \<longrightarrow>
      getAlertStatus s (warning (thresholds s)) = Warning) \<and>
   (critical (thresholds s) \<le> warning (thresholds s) \<longrightarrow>
      getAlertStatus s (warning (thresholds s)) = Critical)"
  by (simp add: getAlertStatus_def)

text \<open>
  The default seismic sensor (warning 3.0, critical 4.0) at 4, 3.5, 2.5 and 3, and the
  sensor with both thresholds at 4.
\<close>

theorem getAlertStatus_classifies_witness:
  "critical (thresholds seismic_001) \<le> 4 \<and> getAlertStatus seismic_001 4 = Critical \<and>
   (3.5 < critical (thresholds seismic_001) \<and> warning (thresholds seismic_001) \<le> 3.5) \<and>
   getAlertStatus seismic_001 3.5 = Warning \<and>
   (2.5 < critical (thresholds seismic_001) \<and> 2.5 < warning (thresholds seismic_001)) \<and>
   getAlertStatus seismic_001 2.5 = Normal \<and>
   warning (thresholds seismic_001) < critical (thresholds seismic_001) \<and>
   getAlertStatus seismic_001 (warning (thresholds seismic_001)) = Warning \<and>
   critical (thresholds seismic_equal_thresholds) \<le> warning (thresholds seismic_equal_thresholds) \<and>
   getAlertStatus seismic_equal_thresholds (warning (thresholds seismic_equal_thresholds))
     = Critical"
proof -
  have h1: "critical (thresholds seismic_001) \<le> 4" by (simp add: seismic_001_def)
  have h2: "3.5 < critical (thresholds seismic_001) \<and> warning (thresholds seismic_001) \<le> 3.5"
    by (simp add: seismic_001_def)
  have h3: "2.5 < critical (thresholds seismic_001) \<and> 2.5 < warning (thresholds seismic_001)"
    by (simp add: seismic_001_def)
  have h4: "warning (thresholds seismic_001) < critical (thresholds seismic_001)"
    by (simp add: seismic_001_def)
  have h5: "critical (thresholds seismic_equal_thresholds)
      \<le> warning (thresholds seismic_equal_thresholds)"
    by (simp add: seismic_equal_thresholds_def)
  show ?thesis
    using h1 h2 h3 h4 h5
      getAlertStatus_classifies [where v = 4 and s = seismic_001]
      getAlertStatus_classifies [where v = "3.5" and s = seismic_001]
      getAlertStatus_classifies [where v = "2.5" and s = seismic_001]
      getAlertStatus_classifies [where v = 4 and s = seismic_equal_thresholds]
    by blast
qed


section \<open>The reading buffer\<close>

lemma length_slice_last: "length (slice_last n xs) = min n (length xs)"
  by (simp add: slice_last_def)

lemma suffix_slice_last: "suffix (slice_last n xs) xs"
  by (simp add: slice_last_def suffix_drop)

lemma last_slice_last: "0 < n \<Longrightarrow> xs \<noteq> [] \<Longrightarrow> last (slice_last n xs) = last xs"
  by (simp add: slice_last_def last_drop)

lemma readings_addReading:
  "readings (addReading s v q t) =
     (if length (readings s) + 1 > 1000
      then slice_last 1000 (readings s @ [\<lparr>reading_value = v, quality = q, timestamp = t\<rparr>])
      else readings s @ [\<lparr>reading_value = v, quality = q, timestamp = t\<rparr>])"
  by (simp add: addReading_def Let_def)

text \<open>
  C9. After \<open>addReading\<close> the buffer holds at most 1000 readings: it is the end of
  the old buffer followed by the new reading, as long as that allows (1000, or all of
  them when there are fewer), so what is dropped is dropped from the front, and the
  new reading is its last element.
\<close>

theorem addReading_keeps_last_1000:
  "length (readings (addReading s v q t)) \<le> 1000 \<and>
   length (readings (addReading s v q t)) = min 1000 (length (readings s) + 1) \<and>
   suffix (readings (addReading s v q t))
     (readings s @ [\<lparr>reading_value = v, quality = q, timestamp = t\<rparr>]) \<and>
   last (readings (addReading s v q t)) = \<lparr>reading_value = v, quality = q, timestamp = t\<rparr>"
proof -
  let ?r = "\<lparr>reading_value = v, quality = q, timestamp = t\<rparr>"
  let ?pushed = "readings s @ [?r]"
  have len: "length (readings (addReading s v q t)) = min 1000 (length (readings s) + 1)"
    by (simp add: readings_addReading length_slice_last)
  have suf: "suffix (readings (addReading s v q t)) ?pushed"
  proof (cases "length (readings s) + 1 > 1000")
    case True
    then have "readings (addReading s v q t) = slice_last 1000 ?pushed"
      by (simp only: readings_addReading if_True)
    then show ?thesis by (simp only: suffix_slice_last)
  next
    case False
    then have "readings (addReading s v q t) = ?pushed"
      by (simp only: readings_addReading if_False)
    then show ?thesis by (simp only: suffix_order.refl)
  qed
  have lst: "last (readings (addReading s v q t)) = ?r"
  proof (cases "length (readings s) + 1 > 1000")
    case True
    then have "readings (addReading s v q t) = slice_last 1000 ?pushed"
      by (simp only: readings_addReading if_True)
    moreover have "last (slice_last 1000 ?pushed) = last ?pushed"
      by (rule last_slice_last) simp_all
    ultimately show ?thesis by simp
  next
    case False
    then have "readings (addReading s v q t) = ?pushed"
      by (simp only: readings_addReading if_False)
    then show ?thesis by simp
  qed
  from len have "length (readings (addReading s v q t)) \<le> 1000" by simp
  with len suf lst show ?thesis by blast
qed


section \<open>The alert decision\<close>

lemma alertFor_normal: "getAlertStatus s v = Normal \<Longrightarrow> alertFor f s v now idn rnd store = None"
  by (simp add: alertFor_def)

lemma snd_simulateSensor:
  "snd (simulateSensor f s v t now idn rnd store) =
     alertFor f (addReading s v ''good'' t) v now idn rnd store"
  by (simp add: simulateSensor_def Let_def)

lemma alertFor_suppressed:
  assumes "a \<in> set store"
    and "recent_match (sensorId s) (getAlertType (sensor_type s))
           (severity_of (getAlertStatus s v)) (now - 300000) a"
  shows "alertFor f s v now idn rnd store = None"
proof -
  have "find (recent_match (sensorId s) (getAlertType (sensor_type s))
           (severity_of (getAlertStatus s v)) (now - 300000)) store \<noteq> None"
    using assms by (auto simp: find_None_iff)
  then show ?thesis
    by (auto simp: alertFor_def Let_def findOne_def)
qed

lemma alertFor_created:
  assumes "getAlertStatus s v \<noteq> Normal"
    and "\<forall>a\<in>set store. \<not> recent_match (sensorId s) (getAlertType (sensor_type s))
           (severity_of (getAlertStatus s v)) (now - 300000) a"
  shows "alertFor f s v now idn rnd store =
     Some \<lparr>new_id = ''alert-'' @ int_digits idn @ ''-'' @ rnd,
           new_type = getAlertType (sensor_type s),
           new_message = generateAlertMessage f (sensor_type s) v (unit_of s),
           new_severity = severity_of (getAlertStatus s v),
           new_location = name (location s),
           new_coordinates = coordinates (location s),
           new_estimatedImpact = calculateImpact (sensor_type s) (getAlertStatus s v),
           new_sensorData = \<lparr>data_value = v, data_unit = unit_of s,
                              data_sensorId = sensorId s\<rparr>\<rparr>"
proof -
  have "find (recent_match (sensorId s) (getAlertType (sensor_type s))
           (severity_of (getAlertStatus s v)) (now - 300000)) store = None"
    using assms(2) by (simp add: find_None_iff)
  then show ?thesis
    using assms(1) by (simp add: alertFor_def Let_def findOne_def)
qed

lemma alertFor_Some_fields:
  assumes "alertFor f s v now idn rnd store = Some c"
  shows "new_type c = getAlertType (sensor_type s)"
    and "new_severity c = severity_of (getAlertStatus s v)"
    and "new_estimatedImpact c = calculateImpact (sensor_type s) (getAlertStatus s v)"
    and "data_sensorId (new_sensorData c) = sensorId s"
    and "new_message c = generateAlertMessage f (sensor_type s) v (unit_of s)"
    and "getAlertStatus s v \<noteq> Normal"
  using assms by (auto simp: alertFor_def Let_def split: if_splits option.splits)

text \<open>
  C8. A reading classified as normal produces no alert, whatever the alert store
  holds; with thresholds in order that is every value below the warning threshold.
\<close>

theorem normal_reading_no_alert:
  "(getAlertStatus s v = Normal \<longrightarrow> snd (simulateSensor f s v t now idn rnd store) = None) \<and>
   (warning (thresholds s) \<le> critical (thresholds s) \<and> v < warning (thresholds s) \<longrightarrow>
      snd (simulateSensor f s v t now idn rnd store) = None)"
  by (simp add: snd_simulateSensor alertFor_def getAlertStatus_def)

text \<open>
  The default seismic sensor at 2.5, with an empty alert store.
\<close>

theorem normal_reading_no_alert_witness:
  "getAlertStatus seismic_001 2.5 = Normal \<and>
   (warning (thresholds seismic_001) \<le> critical (thresholds seismic_001) \<and>
    2.5 < warning (thresholds seismic_001)) \<and>
   snd (simulateSensor toFixed_decimal seismic_001 2.5 0 0 0 ''k3j9x0q2a'' []) = None"
proof -
  have h1: "getAlertStatus seismic_001 2.5 = Normal"
    by (simp add: getAlertStatus_def seismic_001_def)
  have h2: "warning (thresholds seismic_001) \<le> critical (thresholds seismic_001) \<and>
    2.5 < warning (thresholds seismic_001)"
    by (simp add: seismic_001_def)
  show ?thesis
    using h1 h2
      normal_reading_no_alert [where s = seismic_001 and v = "2.5" and f = toFixed_decimal
        and t = 0 and now = 0 and idn = 0 and rnd = "''k3j9x0q2a''" and store = "[]"]
    by blast
qed


section \<open>Alert type, message and estimated impact\<close>

lemma messages_lookup:
  "map_of (messages f v u) ''seismic'' = Some (''Seismic activity detected: '' @ f 1 v @ '' magnitude'')"
  "map_of (messages f v u) ''water_level'' = Some (''Rising water levels detected: '' @ f 1 v @ u)"
  "map_of (messages f v u) ''wind_speed'' = Some (''High wind speeds detected: '' @ f 1 v @ '' '' @ u)"
  "map_of (messages f v u) ''temperature'' = Some (''Extreme temperature detected: '' @ f 1 v @ u)"
  "map_of (messages f v u) ''air_quality'' = Some (''Poor air quality detected: AQI '' @ f 0 v)"
  "map_of (messages f v u) ''humidity'' = Some (''Unusual humidity levels: '' @ f 1 v @ u)"
  "map_of (messages f v u) ''pressure'' = Some (''Atmospheric pressure anomaly: '' @ f 1 v @ '' '' @ u)"
  by (simp_all add: messages_def)

lemma messages_other:
  "ty \<notin> {''seismic'', ''water_level'', ''wind_speed'', ''temperature'', ''air_quality'',
          ''humidity'', ''pressure''} \<Longrightarrow> map_of (messages f v u) ty = None"
  by (simp add: messages_def)


lemma generateAlertMessage_own:
  "map_of (messages f v u) k = Some m \<Longrightarrow> m \<noteq> [] \<Longrightarrow> generateAlertMessage f k v u = Val m"
  by (simp add: generateAlertMessage_def js_get_own)

lemma generateAlertMessage_other:
  assumes "ty \<notin> {''seismic'', ''water_level'', ''wind_speed'', ''temperature'', ''air_quality'',
            ''humidity'', ''pressure''}"
    and "ty \<notin> set object_prototype_keys"
  shows "generateAlertMessage f ty v u = Val (''Sensor anomaly detected: '' @ f 1 v @ '' '' @ u)"
  using messages_other [OF assms(1)] assms(2)
  by (simp add: generateAlertMessage_def js_get_not_inherited)


lemma getAlertType_seismic: "getAlertType ''seismic'' = Val ''earthquake''"
  by (simp add: getAlertType_def js_get_def alert_type_mapping_def)

lemma calculateImpact_values:
  "calculateImpact ''seismic'' Critical = 10000" "calculateImpact ''seismic'' Warning = 5000"
  "calculateImpact ''water_level'' Critical = 8000" "calculateImpact ''water_level'' Warning = 4000"
  "calculateImpact ''wind_speed'' Critical = 6000" "calculateImpact ''wind_speed'' Warning = 3000"
  "calculateImpact ''temperature'' Critical = 12000" "calculateImpact ''temperature'' Warning = 6000"
  "calculateImpact ''air_quality'' Critical = 15000" "calculateImpact ''air_quality'' Warning = 8000"
  by (simp_all add: calculateImpact_def js_get_def baseImpact_def status_key_def)

lemma calculateImpact_default:
  assumes "ty \<notin> {''seismic'', ''water_level'', ''wind_speed'', ''temperature'', ''air_quality''}"
  shows "calculateImpact ty st = 1000"
proof -
  have "map_of baseImpact ty = None"
    using assms by (simp add: baseImpact_def)
  then show ?thesis
    by (simp add: calculateImpact_def js_get_def)
qed

lemma seismic_message:
  "generateAlertMessage toFixed_decimal ''seismic'' 4.2 ''magnitude''
     = Val ''Seismic activity detected: 4.2 magnitude''"
proof -
  have "generateAlertMessage toFixed_decimal ''seismic'' 4.2 ''magnitude''
      = Val (''Seismic activity detected: '' @ toFixed_decimal 1 4.2 @ '' magnitude'')"
    by (rule generateAlertMessage_own [OF messages_lookup(1)]) simp
  then show ?thesis
    unfolding toFixed_decimal_examples by simp
qed

lemma seismic_001_first_alert:
  "snd (simulateSensor toFixed_decimal seismic_001 4.2 1000 1000 1000 ''k3j9x0q2a'' [])
     = Some seismic_command"
proof -
  let ?s' = "addReading seismic_001 4.2 ''good'' 1000"
  have f: "sensor_type ?s' = ''seismic''" "unit_of ?s' = ''magnitude''"
    "sensorId ?s' = ''seismic-001''" "name (location ?s') = ''Ghaziabad Central''"
    "coordinates (location ?s') = \<lparr>lat = 28.6692, lng = 77.4538\<rparr>"
    by (simp_all add: seismic_001_def)
  have cls: "getAlertStatus ?s' 4.2 = Critical"
    by (simp add: getAlertStatus_def seismic_001_def)
  have "alertFor toFixed_decimal ?s' 4.2 1000 1000 ''k3j9x0q2a'' [] =
     Some \<lparr>new_id = ''alert-'' @ int_digits 1000 @ ''-'' @ ''k3j9x0q2a'',
           new_type = getAlertType (sensor_type ?s'),
           new_message = generateAlertMessage toFixed_decimal (sensor_type ?s') 4.2 (unit_of ?s'),
           new_severity = severity_of (getAlertStatus ?s' 4.2),
           new_location = name (location ?s'),
           new_coordinates = coordinates (location ?s'),
           new_estimatedImpact = calculateImpact (sensor_type ?s') (getAlertStatus ?s' 4.2),
           new_sensorData = \<lparr>data_value = 4.2, data_unit = unit_of ?s',
                              data_sensorId = sensorId ?s'\<rparr>\<rparr>"
  proof (rule alertFor_created)
    show "getAlertStatus ?s' 4.2 \<noteq> Normal" unfolding cls by simp
    show "\<forall>a\<in>set []. \<not> recent_match (sensorId ?s') (getAlertType (sensor_type ?s'))
           (severity_of (getAlertStatus ?s' 4.2)) (1000 - 300000) a"
      by simp
  qed
  then have "alertFor toFixed_decimal ?s' 4.2 1000 1000 ''k3j9x0q2a'' [] = Some seismic_command"
    unfolding f cls seismic_message getAlertType_seismic calculateImpact_values
      int_digits_examples severity_of_def seismic_command_def
    by simp
  then show ?thesis
    by (simp only: snd_simulateSensor)
qed

text \<open>
  The claim that humidity and pressure sensors get the default message fails: the
  table of messages has an entry for each of them.
\<close>

theorem humidity_message_counterexample:
  "generateAlertMessage toFixed_decimal ''humidity'' 85 ''%'' = Val ''Unusual humidity levels: 85.0%'' \<and>
   generateAlertMessage toFixed_decimal ''humidity'' 85 ''%''
     \<noteq> Val (''Sensor anomaly detected: '' @ toFixed_decimal 1 85 @ '' '' @ ''%'') \<and>
   generateAlertMessage toFixed_decimal ''pressure'' 1049.5 ''hPa''
     = Val ''Atmospheric pressure anomaly: 1049.5 hPa'' \<and>
   generateAlertMessage toFixed_decimal ''pressure'' 1049.5 ''hPa''
     \<noteq> Val (''Sensor anomaly detected: '' @ toFixed_decimal 1 1049.5 @ '' '' @ ''hPa'')"
proof -
  have h: "generateAlertMessage toFixed_decimal ''humidity'' 85 ''%''
      = Val (''Unusual humidity levels: '' @ toFixed_decimal 1 85 @ ''%'')"
    by (rule generateAlertMessage_own [OF messages_lookup(6)]) simp
  have p: "generateAlertMessage toFixed_decimal ''pressure'' 1049.5 ''hPa''
      = Val (''Atmospheric pressure anomaly: '' @ toFixed_decimal 1 1049.5 @ '' '' @ ''hPa'')"
    by (rule generateAlertMessage_own [OF messages_lookup(7)]) simp
  show ?thesis
    unfolding h p toFixed_decimal_examples by simp
qed

text \<open>
  C6 (amended). The message follows the sensor type: the five templates for seismic,
  water_level, wind_speed, temperature and air_quality, a template of its own for
  humidity (\<open>Unusual humidity levels\<close>) and for pressure (\<open>Atmospheric pressure
  anomaly\<close>), and the default \<open>Sensor anomaly detected\<close> for every other sensor type
  that is not a property name of \<open>Object.prototype\<close>, such as weather. The value is
  printed with one decimal, for air_quality with none.
\<close>

theorem generateAlertMessage_templates:
  "generateAlertMessage f ''seismic'' v u =
     Val (''Seismic activity detected: '' @ f 1 v @ '' magnitude'') \<and>
   generateAlertMessage f ''water_level'' v u =
     Val (''Rising water levels detected: '' @ f 1 v @ u) \<and>
   generateAlertMessage f ''wind_speed'' v u =
     Val (''High wind speeds detected: '' @ f 1 v @ '' '' @ u) \<and>
   generateAlertMessage f ''temperature'' v u =
     Val (''Extreme temperature detected: '' @ f 1 v @ u) \<and>
   generateAlertMessage f ''air_quality'' v u =
     Val (''Poor air quality detected: AQI '' @ f 0 v) \<and>
   generateAlertMessage f ''humidity'' v u =
     Val (''Unusual humidity levels: '' @ f 1 v @ u) \<and>
   generateAlertMessage f ''pressure'' v u =
     Val (''Atmospheric pressure anomaly: '' @ f 1 v @ '' '' @ u) \<and>
   (ty \<notin> {''seismic'', ''water_level'', ''wind_speed'', ''temperature'', ''air_quality'',
            ''humidity'', ''pressure''} \<and>
    ty \<notin> set object_prototype_keys \<longrightarrow>
      generateAlertMessage f ty v u = Val (''Sensor anomaly detected: '' @ f 1 v @ '' '' @ u))"
proof -
  note own = generateAlertMessage_own
  show ?thesis
    using own [OF messages_lookup(1)] own [OF messages_lookup(2)] own [OF messages_lookup(3)]
      own [OF messages_lookup(4)] own [OF messages_lookup(5)] own [OF messages_lookup(6)]
      own [OF messages_lookup(7)] generateAlertMessage_other [of ty f v u]
    by simp
qed

text \<open>
  A weather sensor reading 61.25 mm.
\<close>

theorem generateAlertMessage_templates_witness:
  "(''weather'' \<notin> {''seismic'', ''water_level'', ''wind_speed'', ''temperature'', ''air_quality'',
            ''humidity'', ''pressure''} \<and>
    ''weather'' \<notin> set object_prototype_keys) \<and>
   generateAlertMessage toFixed_decimal ''weather'' 61.25 ''mm'' = Val ''Sensor anomaly detected: 61.3 mm''"
proof -
  have h: "''weather'' \<notin> {''seismic'', ''water_level'', ''wind_speed'', ''temperature'',
      ''air_quality'', ''humidity'', ''pressure''} \<and> ''weather'' \<notin> set object_prototype_keys"
    by (simp add: object_prototype_keys_def)
  have "generateAlertMessage toFixed_decimal ''weather'' 61.25 ''mm''
      = Val (''Sensor anomaly detected: '' @ toFixed_decimal 1 61.25 @ '' '' @ ''mm'')"
    using generateAlertMessage_templates [where ty = "''weather''" and f = toFixed_decimal
        and v = "61.25" and u = "''mm''"] h
    by (simp only: simp_thms)
  then have "generateAlertMessage toFixed_decimal ''weather'' 61.25 ''mm''
      = Val ''Sensor anomaly detected: 61.3 mm''"
    unfolding toFixed_decimal_examples by simp
  with h show ?thesis by (simp only: simp_thms)
qed

text \<open>
  C7. The estimated impact is the table's value for the five sensor types of the table
  and 1000 for every other sensor type; a created alert carries the value for its
  sensor's type and the reading's status; and a seismic sensor with thresholds 3.0 and
  4.0 reading 4.0, with no recent matching alert, creates an alert of type earthquake,
  severity critical and estimated impact 10000.
\<close>

theorem estimatedImpact_table:
  "calculateImpact ''seismic'' Critical = 10000 \<and> calculateImpact ''seismic'' Warning = 5000 \<and>
   calculateImpact ''water_level'' Critical = 8000 \<and> calculateImpact ''water_level'' Warning = 4000 \<and>
   calculateImpact ''wind_speed'' Critical = 6000 \<and> calculateImpact ''wind_speed'' Warning = 3000 \<and>
   calculateImpact ''temperature'' Critical = 12000 \<and> calculateImpact ''temperature'' Warning = 6000 \<and>
   calculateImpact ''air_quality'' Critical = 15000 \<and> calculateImpact ''air_quality'' Warning = 8000 \<and>
   (ty \<notin> {''seismic'', ''water_level'', ''wind_speed'', ''temperature'', ''air_quality''} \<longrightarrow>
      calculateImpact ty st = 1000) \<and>
   (snd (simulateSensor f s v t now idn rnd store) = Some c \<longrightarrow>
      new_estimatedImpact c = calculateImpact (sensor_type s) (getAlertStatus s v)) \<and>
   (sensor_type s = ''seismic'' \<and> thresholds s = \<lparr>warning = 3.0, critical = 4.0\<rparr> \<and>
    (\<forall>a\<in>set store. \<not> recent_match (sensorId s) (Val ''earthquake'') ''critical''
                        (now - 300000) a) \<longrightarrow>
      (\<exists>c. snd (simulateSensor f s 4.0 t now idn rnd store) = Some c \<and>
           new_type c = Val ''earthquake'' \<and> new_severity c = ''critical'' \<and>
           new_estimatedImpact c = 10000))"
proof -
  have created: "new_estimatedImpact c = calculateImpact (sensor_type s) (getAlertStatus s v)"
    if "snd (simulateSensor f s v t now idn rnd store) = Some c"
    using alertFor_Some_fields(3) [of f "addReading s v ''good'' t" v now idn rnd store c] that
    by (simp add: snd_simulateSensor)
  have example: "\<exists>c. snd (simulateSensor f s 4.0 t now idn rnd store) = Some c \<and>
           new_type c = Val ''earthquake'' \<and> new_severity c = ''critical'' \<and>
           new_estimatedImpact c = 10000"
    if ty: "sensor_type s = ''seismic''"
      and th: "thresholds s = \<lparr>warning = 3.0, critical = 4.0\<rparr>"
      and st: "\<forall>a\<in>set store. \<not> recent_match (sensorId s) (Val ''earthquake'') ''critical''
                        (now - 300000) a"
  proof -
    let ?s' = "addReading s 4.0 ''good'' t"
    have cls: "getAlertStatus ?s' 4.0 = Critical"
      using th by (simp add: getAlertStatus_def)
    have "alertFor f ?s' 4.0 now idn rnd store =
        Some \<lparr>new_id = ''alert-'' @ int_digits idn @ ''-'' @ rnd,
           new_type = getAlertType (sensor_type ?s'),
           new_message = generateAlertMessage f (sensor_type ?s') 4.0 (unit_of ?s'),
           new_severity = severity_of (getAlertStatus ?s' 4.0),
           new_location = name (location ?s'),
           new_coordinates = coordinates (location ?s'),
           new_estimatedImpact = calculateImpact (sensor_type ?s') (getAlertStatus ?s' 4.0),
           new_sensorData = \<lparr>data_value = 4.0, data_unit = unit_of ?s',
                              data_sensorId = sensorId ?s'\<rparr>\<rparr>"
    proof (rule alertFor_created)
      show "getAlertStatus ?s' 4.0 \<noteq> Normal" using cls by simp
      show "\<forall>a\<in>set store. \<not> recent_match (sensorId ?s') (getAlertType (sensor_type ?s'))
           (severity_of (getAlertStatus ?s' 4.0)) (now - 300000) a"
        using st cls ty by (simp add: getAlertType_seismic severity_of_def del: getAlertStatus_addReading)
    qed
    then show ?thesis
      using cls ty
      by (simp add: snd_simulateSensor getAlertType_seismic severity_of_def
          calculateImpact_values(1) del: getAlertStatus_addReading)
  qed
  have i1: "ty \<notin> {''seismic'', ''water_level'', ''wind_speed'', ''temperature'', ''air_quality''}
      \<longrightarrow> calculateImpact ty st = 1000"
    by (rule impI) (rule calculateImpact_default)
  have i2: "snd (simulateSensor f s v t now idn rnd store) = Some c \<longrightarrow>
      new_estimatedImpact c = calculateImpact (sensor_type s) (getAlertStatus s v)"
    by (rule impI) (rule created)
  have i3: "sensor_type s = ''seismic'' \<and> thresholds s = \<lparr>warning = 3.0, critical = 4.0\<rparr> \<and>
    (\<forall>a\<in>set store. \<not> recent_match (sensorId s) (Val ''earthquake'') ''critical''
                        (now - 300000) a) \<longrightarrow>
      (\<exists>c. snd (simulateSensor f s 4.0 t now idn rnd store) = Some c \<and>
           new_type c = Val ''earthquake'' \<and> new_severity c = ''critical'' \<and>
           new_estimatedImpact c = 10000)"
    by (intro impI, elim conjE) (rule example)
  show ?thesis
    using calculateImpact_values i1 i2 i3 by (intro conjI) assumption+
qed

text \<open>
  A weather sensor, the default seismic sensor reading 4.2 on an empty store, and the
  same sensor reading 4.0 when the only stored alert is older than five minutes.
\<close>

theorem estimatedImpact_table_witness:
  "''weather'' \<notin> {''seismic'', ''water_level'', ''wind_speed'', ''temperature'', ''air_quality''} \<and>
   calculateImpact ''weather'' Critical = 1000 \<and>
   snd (simulateSensor toFixed_decimal seismic_001 4.2 1000 1000 1000 ''k3j9x0q2a'' [])
     = Some seismic_command \<and>
   new_estimatedImpact seismic_command
     = calculateImpact (sensor_type seismic_001) (getAlertStatus seismic_001 4.2) \<and>
   (sensor_type seismic_001 = ''seismic'' \<and>
    thresholds seismic_001 = \<lparr>warning = 3.0, critical = 4.0\<rparr> \<and>
    set [seismic_alert] = {seismic_alert} \<and>
    \<not> recent_match (sensorId seismic_001) (Val ''earthquake'') ''critical''
        (301001 - 300000) seismic_alert) \<and>
   (\<exists>c. snd (simulateSensor toFixed_decimal seismic_001 4.0 301001 301001 301001 ''p0o9i8u7y''
             [seismic_alert]) = Some c \<and>
        new_type c = Val ''earthquake'' \<and> new_severity c = ''critical'' \<and>
        new_estimatedImpact c = 10000)"
proof -
  have h1: "''weather'' \<notin> {''seismic'', ''water_level'', ''wind_speed'', ''temperature'',
      ''air_quality''}"
    by simp
  have cls: "getAlertStatus seismic_001 4.2 = Critical"
    by (simp add: getAlertStatus_def seismic_001_def)
  note h2 = seismic_001_first_alert
  have h3: "sensor_type seismic_001 = ''seismic'' \<and>
    thresholds seismic_001 = \<lparr>warning = 3.0, critical = 4.0\<rparr> \<and>
    (\<forall>a\<in>set [seismic_alert]. \<not> recent_match (sensorId seismic_001) (Val ''earthquake'')
         ''critical'' (301001 - 300000) a)"
    by (simp add: seismic_001_def seismic_alert_def recent_match_def)
  note T1 = estimatedImpact_table [where ty = "''weather''" and st = Critical and f = toFixed_decimal
      and s = seismic_001 and v = "4.2" and t = 1000 and now = 1000 and idn = 1000
      and rnd = "''k3j9x0q2a''" and store = "[]" and c = seismic_command]
  note T2 = estimatedImpact_table [where f = toFixed_decimal and s = seismic_001 and t = 301001
      and now = 301001 and idn = 301001 and rnd = "''p0o9i8u7y''" and store = "[seismic_alert]"]
  have c1: "calculateImpact ''weather'' Critical = 1000"
    using T1 h1 by blast
  have c2: "new_estimatedImpact seismic_command
     = calculateImpact (sensor_type seismic_001) (getAlertStatus seismic_001 4.2)"
    using T1 h2 by blast
  have c3: "\<exists>c. snd (simulateSensor toFixed_decimal seismic_001 4.0 301001 301001 301001 ''p0o9i8u7y''
             [seismic_alert]) = Some c \<and>
        new_type c = Val ''earthquake'' \<and> new_severity c = ''critical'' \<and>
        new_estimatedImpact c = 10000"
    using T2 h3 by blast
  have h4: "set [seismic_alert] = {seismic_alert}" by simp
  have h5: "\<not> recent_match (sensorId seismic_001) (Val ''earthquake'') ''critical''
        (301001 - 300000) seismic_alert"
    using h3 by simp
  have h6: "sensor_type seismic_001 = ''seismic''"
    and h7: "thresholds seismic_001 = \<lparr>warning = 3.0, critical = 4.0\<rparr>"
    using h3 by simp_all
  show ?thesis
    using h1 c1 h2 c2 h4 h5 h6 h7 c3 by (simp only: simp_thms)
qed


section \<open>Deduplication\<close>

text \<open>The filter of the query, field by field.\<close>

lemma recent_match_fields:
  "recent_match sid ty sev since b \<longleftrightarrow>
     map_option data_sensorId (alert_sensorData b) = Some sid \<and>
     Val (alert_type b) = ty \<and> alert_severity b = sev \<and> \<not> resolved b \<and>
     since \<le> createdAt b"
  by (cases "alert_sensorData b") (auto simp: recent_match_def)

lemma severity_of_cases:
  "severity_of st = (if st = Critical then ''critical'' else ''warning'')"
  by (simp add: severity_of_def)

text \<open>
  C2. (1) When an evaluation created an alert and the store still holds the unresolved
  document saved for it, created at most five minutes before the clock of a later
  evaluation of the same sensor id, alert type and severity, the later evaluation
  creates nothing. (2) An evaluation whose reading is not normal creates an alert when
  every stored alert that carries the sensor's id, the alert type mapped from the
  sensor's type and the severity of the reading (critical for a critical reading,
  warning otherwise), and that is not resolved, was created more than five minutes
  before the clock; the alert it creates has that type and severity. (3) In particular
  it does when the first alert's document is older than five minutes and every other
  stored alert is of that kind.
\<close>

theorem dedup_five_minute_window:
  "(snd (simulateSensor f s v1 t1 n1 i1 r1 st1) = Some c \<and>
    a \<in> set st2 \<and> saved_unresolved c ta a \<and> n2 - 300000 \<le> ta \<and>
    sensorId s2 = sensorId s \<and>
    getAlertType (sensor_type s2) = getAlertType (sensor_type s) \<and>
    severity_of (getAlertStatus s2 v2) = severity_of (getAlertStatus s v1) \<longrightarrow>
      snd (simulateSensor g s2 v2 t2 n2 i2 r2 st2) = None) \<and>
   (getAlertStatus s2 v2 \<noteq> Normal \<and>
    (\<forall>b\<in>set st2.
        map_option data_sensorId (alert_sensorData b) = Some (sensorId s2) \<and>
        Val (alert_type b) = getAlertType (sensor_type s2) \<and>
        alert_severity b = (if getAlertStatus s2 v2 = Critical then ''critical'' else ''warning'') \<and>
        \<not> resolved b \<longrightarrow> createdAt b < n2 - 300000) \<longrightarrow>
      (\<exists>c2. snd (simulateSensor g s2 v2 t2 n2 i2 r2 st2) = Some c2 \<and>
            new_type c2 = getAlertType (sensor_type s2) \<and>
            new_severity c2 = (if getAlertStatus s2 v2 = Critical then ''critical'' else ''warning'') \<and>
            data_sensorId (new_sensorData c2) = sensorId s2)) \<and>
   (snd (simulateSensor f s v1 t1 n1 i1 r1 st1) = Some c \<and>
    saved_unresolved c ta a \<and> ta < n2 - 300000 \<and>
    (\<forall>b\<in>set st2. b \<noteq> a \<longrightarrow>
        (map_option data_sensorId (alert_sensorData b) = Some (sensorId s2) \<and>
         Val (alert_type b) = getAlertType (sensor_type s2) \<and>
         alert_severity b = (if getAlertStatus s2 v2 = Critical then ''critical'' else ''warning'') \<and>
         \<not> resolved b \<longrightarrow> createdAt b < n2 - 300000)) \<and>
    getAlertStatus s2 v2 \<noteq> Normal \<longrightarrow>
      (\<exists>c2. snd (simulateSensor g s2 v2 t2 n2 i2 r2 st2) = Some c2))"
proof -
  let ?s2' = "addReading s2 v2 ''good'' t2"
  let ?sev = "if getAlertStatus s2 v2 = Critical then ''critical'' else ''warning''"
  have suppressed: "snd (simulateSensor g s2 v2 t2 n2 i2 r2 st2) = None"
    if first: "snd (simulateSensor f s v1 t1 n1 i1 r1 st1) = Some c"
      and mem: "a \<in> set st2" and sv: "saved_unresolved c ta a" and win: "n2 - 300000 \<le> ta"
      and sid: "sensorId s2 = sensorId s"
      and ty: "getAlertType (sensor_type s2) = getAlertType (sensor_type s)"
      and sev: "severity_of (getAlertStatus s2 v2) = severity_of (getAlertStatus s v1)"
  proof -
    from first have c: "alertFor f (addReading s v1 ''good'' t1) v1 n1 i1 r1 st1 = Some c"
      by (simp only: snd_simulateSensor)
    have cty: "new_type c = getAlertType (sensor_type s)"
      and csev: "new_severity c = severity_of (getAlertStatus s v1)"
      and cid: "data_sensorId (new_sensorData c) = sensorId s"
      using alertFor_Some_fields(1,2,4) [OF c] by simp_all
    have "recent_match (sensorId ?s2') (getAlertType (sensor_type ?s2'))
           (severity_of (getAlertStatus ?s2' v2)) (n2 - 300000) a"
      using sv win sid ty sev cty csev cid
      by (simp add: recent_match_def saved_unresolved_def)
    from alertFor_suppressed [OF mem this]
    show ?thesis by (simp only: snd_simulateSensor)
  qed
  have created: "\<exists>c2. snd (simulateSensor g s2 v2 t2 n2 i2 r2 st2) = Some c2 \<and>
            new_type c2 = getAlertType (sensor_type s2) \<and> new_severity c2 = ?sev \<and>
            data_sensorId (new_sensorData c2) = sensorId s2"
    if cls: "getAlertStatus s2 v2 \<noteq> Normal"
      and none: "\<forall>b\<in>set st2.
        map_option data_sensorId (alert_sensorData b) = Some (sensorId s2) \<and>
        Val (alert_type b) = getAlertType (sensor_type s2) \<and>
        alert_severity b = ?sev \<and> \<not> resolved b \<longrightarrow> createdAt b < n2 - 300000"
  proof -
    have "getAlertStatus ?s2' v2 \<noteq> Normal" using cls by simp
    moreover have "\<forall>b\<in>set st2. \<not> recent_match (sensorId ?s2') (getAlertType (sensor_type ?s2'))
        (severity_of (getAlertStatus ?s2' v2)) (n2 - 300000) b"
    proof
      fix b
      assume b: "b \<in> set st2"
      show "\<not> recent_match (sensorId ?s2') (getAlertType (sensor_type ?s2'))
        (severity_of (getAlertStatus ?s2' v2)) (n2 - 300000) b"
      proof
        assume m: "recent_match (sensorId ?s2') (getAlertType (sensor_type ?s2'))
          (severity_of (getAlertStatus ?s2' v2)) (n2 - 300000) b"
        then have "map_option data_sensorId (alert_sensorData b) = Some (sensorId s2) \<and>
            Val (alert_type b) = getAlertType (sensor_type s2) \<and>
            alert_severity b = ?sev \<and> \<not> resolved b"
          and late: "n2 - 300000 \<le> createdAt b"
          by (simp_all add: recent_match_fields severity_of_cases)
        with none b have "createdAt b < n2 - 300000" by blast
        with late show False by simp
      qed
    qed
    ultimately have "alertFor g ?s2' v2 n2 i2 r2 st2 =
       Some \<lparr>new_id = ''alert-'' @ int_digits i2 @ ''-'' @ r2,
           new_type = getAlertType (sensor_type ?s2'),
           new_message = generateAlertMessage g (sensor_type ?s2') v2 (unit_of ?s2'),
           new_severity = severity_of (getAlertStatus ?s2' v2),
           new_location = name (location ?s2'),
           new_coordinates = coordinates (location ?s2'),
           new_estimatedImpact = calculateImpact (sensor_type ?s2') (getAlertStatus ?s2' v2),
           new_sensorData = \<lparr>data_value = v2, data_unit = unit_of ?s2',
                              data_sensorId = sensorId ?s2'\<rparr>\<rparr>"
      by (rule alertFor_created)
    then show ?thesis
      by (simp add: snd_simulateSensor severity_of_cases)
  qed
  have expired: "\<exists>c2. snd (simulateSensor g s2 v2 t2 n2 i2 r2 st2) = Some c2"
    if sv: "saved_unresolved c ta a" and old: "ta < n2 - 300000"
      and others: "\<forall>b\<in>set st2. b \<noteq> a \<longrightarrow>
        (map_option data_sensorId (alert_sensorData b) = Some (sensorId s2) \<and>
         Val (alert_type b) = getAlertType (sensor_type s2) \<and>
         alert_severity b = ?sev \<and> \<not> resolved b \<longrightarrow> createdAt b < n2 - 300000)"
      and cls: "getAlertStatus s2 v2 \<noteq> Normal"
  proof -
    have ca: "createdAt a < n2 - 300000"
      using sv old by (simp add: saved_unresolved_def)
    have "\<forall>b\<in>set st2.
        map_option data_sensorId (alert_sensorData b) = Some (sensorId s2) \<and>
        Val (alert_type b) = getAlertType (sensor_type s2) \<and>
        alert_severity b = ?sev \<and> \<not> resolved b \<longrightarrow> createdAt b < n2 - 300000"
    proof
      fix b
      assume b: "b \<in> set st2"
      show "map_option data_sensorId (alert_sensorData b) = Some (sensorId s2) \<and>
        Val (alert_type b) = getAlertType (sensor_type s2) \<and>
        alert_severity b = ?sev \<and> \<not> resolved b \<longrightarrow> createdAt b < n2 - 300000"
      proof (cases "b = a")
        case True
        with ca show ?thesis by simp
      next
        case False
        with others b show ?thesis by blast
      qed
    qed
    from created [OF cls this] show ?thesis by blast
  qed
  have p1: "snd (simulateSensor f s v1 t1 n1 i1 r1 st1) = Some c \<and>
    a \<in> set st2 \<and> saved_unresolved c ta a \<and> n2 - 300000 \<le> ta \<and>
    sensorId s2 = sensorId s \<and>
    getAlertType (sensor_type s2) = getAlertType (sensor_type s) \<and>
    severity_of (getAlertStatus s2 v2) = severity_of (getAlertStatus s v1) \<longrightarrow>
      snd (simulateSensor g s2 v2 t2 n2 i2 r2 st2) = None"
    by (intro impI, elim conjE) (rule suppressed)
  have p2: "getAlertStatus s2 v2 \<noteq> Normal \<and>
    (\<forall>b\<in>set st2.
        map_option data_sensorId (alert_sensorData b) = Some (sensorId s2) \<and>
        Val (alert_type b) = getAlertType (sensor_type s2) \<and>
        alert_severity b = ?sev \<and> \<not> resolved b \<longrightarrow> createdAt b < n2 - 300000) \<longrightarrow>
      (\<exists>c2. snd (simulateSensor g s2 v2 t2 n2 i2 r2 st2) = Some c2 \<and>
            new_type c2 = getAlertType (sensor_type s2) \<and> new_severity c2 = ?sev \<and>
            data_sensorId (new_sensorData c2) = sensorId s2)"
    by (intro impI, elim conjE) (rule created)
  have p3: "snd (simulateSensor f s v1 t1 n1 i1 r1 st1) = Some c \<and>
    saved_unresolved c ta a \<and> ta < n2 - 300000 \<and>
    (\<forall>b\<in>set st2. b \<noteq> a \<longrightarrow>
        (map_option data_sensorId (alert_sensorData b) = Some (sensorId s2) \<and>
         Val (alert_type b) = getAlertType (sensor_type s2) \<and>
         alert_severity b = ?sev \<and> \<not> resolved b \<longrightarrow> createdAt b < n2 - 300000)) \<and>
    getAlertStatus s2 v2 \<noteq> Normal \<longrightarrow>
      (\<exists>c2. snd (simulateSensor g s2 v2 t2 n2 i2 r2 st2) = Some c2)"
    by (intro impI, elim conjE) (rule expired)
  from p1 p2 p3 show ?thesis by (intro conjI)
qed

lemma seismic_alert_saved: "saved_unresolved seismic_command 1000 seismic_alert"
  by (simp add: saved_unresolved_def seismic_command_def seismic_alert_def)

text \<open>
  The default seismic sensor reads 4.2 at time 1000 and then 4.5: exactly five minutes
  later with the alert in the store (nothing is created); at the same moment when the
  stored alert has been resolved (a critical earthquake alert is created); and one
  millisecond after the five minutes with the unresolved alert in the store (an alert is
  created).
\<close>

theorem dedup_five_minute_window_witness:
  "(snd (simulateSensor toFixed_decimal seismic_001 4.2 1000 1000 1000 ''k3j9x0q2a'' [])
      = Some seismic_command \<and>
    seismic_alert \<in> set [seismic_alert] \<and> saved_unresolved seismic_command 1000 seismic_alert \<and>
    (301000::int) - 300000 \<le> 1000 \<and>
    sensorId seismic_001 = sensorId seismic_001 \<and>
    getAlertType (sensor_type seismic_001) = getAlertType (sensor_type seismic_001) \<and>
    severity_of (getAlertStatus seismic_001 4.5) = severity_of (getAlertStatus seismic_001 4.2)) \<and>
   snd (simulateSensor toFixed_decimal seismic_001 4.5 301000 301000 301000 ''p0o9i8u7y''
          [seismic_alert]) = None \<and>
   (getAlertStatus seismic_001 4.5 \<noteq> Normal \<and>
    set [seismic_alert_resolved] = {seismic_alert_resolved} \<and>
    resolved seismic_alert_resolved) \<and>
   (\<exists>c2. snd (simulateSensor toFixed_decimal seismic_001 4.5 301000 301000 301000 ''p0o9i8u7y''
             [seismic_alert_resolved]) = Some c2 \<and>
         new_type c2 = Val ''earthquake'' \<and> new_severity c2 = ''critical'' \<and>
         data_sensorId (new_sensorData c2) = ''seismic-001'') \<and>
   ((1000::int) < 301001 - 300000 \<and>
    set [seismic_alert] - {seismic_alert} = {}) \<and>
   (\<exists>c2. snd (simulateSensor toFixed_decimal seismic_001 4.5 301001 301001 301001 ''p0o9i8u7y''
             [seismic_alert]) = Some c2)"
proof -
  note first = seismic_001_first_alert
  note saved = seismic_alert_saved
  have cls: "getAlertStatus seismic_001 4.5 \<noteq> Normal"
    by (simp add: getAlertStatus_def seismic_001_def)
  have crit: "getAlertStatus seismic_001 4.5 = Critical"
    by (simp add: getAlertStatus_def seismic_001_def)
  have sev: "severity_of (getAlertStatus seismic_001 4.5) = severity_of (getAlertStatus seismic_001 4.2)"
    by (simp add: getAlertStatus_def seismic_001_def)
  have mem: "seismic_alert \<in> set [seismic_alert]" by simp
  have w1: "(301000::int) - 300000 \<le> 1000" by simp
  have w2: "(1000::int) < 301001 - 300000" by simp
  have res: "resolved seismic_alert_resolved"
    by (simp add: seismic_alert_resolved_def)
  have e1: "\<forall>b\<in>set [seismic_alert_resolved].
        map_option data_sensorId (alert_sensorData b) = Some (sensorId seismic_001) \<and>
        Val (alert_type b) = getAlertType (sensor_type seismic_001) \<and>
        alert_severity b
          = (if getAlertStatus seismic_001 4.5 = Critical then ''critical'' else ''warning'') \<and>
        \<not> resolved b \<longrightarrow> createdAt b < 301000 - 300000"
    using res by simp
  have e2: "\<forall>b\<in>set [seismic_alert]. b \<noteq> seismic_alert \<longrightarrow>
        (map_option data_sensorId (alert_sensorData b) = Some (sensorId seismic_001) \<and>
         Val (alert_type b) = getAlertType (sensor_type seismic_001) \<and>
         alert_severity b
           = (if getAlertStatus seismic_001 4.5 = Critical then ''critical'' else ''warning'') \<and>
         \<not> resolved b \<longrightarrow> createdAt b < 301001 - 300000)"
    by simp
  note A = dedup_five_minute_window [where f = toFixed_decimal and g = toFixed_decimal
      and s = seismic_001 and ?s2.0 = seismic_001 and ?v1.0 = "4.2" and ?v2.0 = "4.5"
      and ?t1.0 = 1000 and ?n1.0 = 1000 and ?i1.0 = 1000 and ?r1.0 = "''k3j9x0q2a''"
      and ?st1.0 = "[]" and c = seismic_command and a = seismic_alert and ta = 1000
      and ?t2.0 = 301000 and ?n2.0 = 301000 and ?i2.0 = 301000 and ?r2.0 = "''p0o9i8u7y''"
      and ?st2.0 = "[seismic_alert]"]
  note B = dedup_five_minute_window [where g = toFixed_decimal and ?s2.0 = seismic_001
      and ?v2.0 = "4.5" and ?t2.0 = 301000 and ?n2.0 = 301000 and ?i2.0 = 301000
      and ?r2.0 = "''p0o9i8u7y''" and ?st2.0 = "[seismic_alert_resolved]"]
  note C = dedup_five_minute_window [where f = toFixed_decimal and g = toFixed_decimal
      and s = seismic_001 and ?s2.0 = seismic_001 and ?v1.0 = "4.2" and ?v2.0 = "4.5"
      and ?t1.0 = 1000 and ?n1.0 = 1000 and ?i1.0 = 1000 and ?r1.0 = "''k3j9x0q2a''"
      and ?st1.0 = "[]" and c = seismic_command and a = seismic_alert and ta = 1000
      and ?t2.0 = 301001 and ?n2.0 = 301001 and ?i2.0 = 301001 and ?r2.0 = "''p0o9i8u7y''"
      and ?st2.0 = "[seismic_alert]"]
  have c1: "snd (simulateSensor toFixed_decimal seismic_001 4.5 301000 301000 301000 ''p0o9i8u7y''
          [seismic_alert]) = None"
    using A first mem saved w1 sev by blast
  have "\<exists>c2. snd (simulateSensor toFixed_decimal seismic_001 4.5 301000 301000 301000
      ''p0o9i8u7y'' [seismic_alert_resolved]) = Some c2 \<and>
      new_type c2 = getAlertType (sensor_type seismic_001) \<and>
      new_severity c2
        = (if getAlertStatus seismic_001 4.5 = Critical then ''critical'' else ''warning'') \<and>
      data_sensorId (new_sensorData c2) = sensorId seismic_001"
    using B cls e1 by blast
  moreover have "getAlertType (sensor_type seismic_001) = Val ''earthquake''"
    by (simp add: seismic_001_def getAlertType_seismic)
  moreover have "sensorId seismic_001 = ''seismic-001''"
    by (simp add: seismic_001_def)
  ultimately have c2: "\<exists>c2. snd (simulateSensor toFixed_decimal seismic_001 4.5 301000 301000
      301000 ''p0o9i8u7y'' [seismic_alert_resolved]) = Some c2 \<and>
      new_type c2 = Val ''earthquake'' \<and> new_severity c2 = ''critical'' \<and>
      data_sensorId (new_sensorData c2) = ''seismic-001''"
    using crit by simp
  have c3: "\<exists>c2. snd (simulateSensor toFixed_decimal seismic_001 4.5 301001 301001 301001
      ''p0o9i8u7y'' [seismic_alert]) = Some c2"
    using C first saved w2 e2 cls by blast
  have e1': "set [seismic_alert_resolved] = {seismic_alert_resolved}" by simp
  have e2': "set [seismic_alert] - {seismic_alert} = {}" by simp
  show ?thesis
    using first mem saved w1 sev c1 cls e1' res c2 w2 e2' c3
    by (simp only: simp_thms)
qed


section \<open>The priority of a report\<close>

lemma severityMultiplier_range:
  "map_of severityMultiplier sev = Some m \<Longrightarrow> m \<in> {1 / 2, 1, 3 / 2, 2}"
  by (auto simp: severityMultiplier_def split: if_splits)

lemma severityImpact_defined:
  assumes "sev \<notin> set object_prototype_keys"
  shows "\<exists>p1. severityImpact sev 5 = Some p1 \<and> 5 / 2 \<le> p1"
proof (cases "map_of severityMultiplier sev")
  case None
  with assms show ?thesis
    by (simp add: severityImpact_def js_get_not_inherited)
next
  case (Some m)
  from severityMultiplier_range [OF Some] have "m \<in> {1 / 2, 1, 3 / 2, 2}" .
  with Some show ?thesis
    by (auto simp: severityImpact_def js_get_own)
qed

lemma typeImpact_ge: "0 \<le> p \<Longrightarrow> p \<le> typeImpact ty p"
  by (simp add: typeImpact_def)

lemma timeFactor_ge: "0 \<le> p \<Longrightarrow> p \<le> timeFactor h p"
proof -
  assume p: "0 \<le> p"
  have a: "p \<le> p * (6 / 5)" using p by simp
  have b: "p \<le> p * (6 / 5) * (3 / 2)" using p by simp
  show ?thesis using a b by (simp add: timeFactor_def Let_def)
qed

lemma timeFactor_mono:
  assumes "0 \<le> p" and "h1 \<le> h2"
  shows "timeFactor h1 p \<le> timeFactor h2 p"
proof -
  have a: "p \<le> p * (6 / 5)" using assms(1) by simp
  have b: "p * (6 / 5) \<le> p * (6 / 5) * (3 / 2)" using assms(1) by simp
  show ?thesis using a b assms(2) by (auto simp: timeFactor_def Let_def)
qed

lemma affectedFactor_ge: "0 \<le> p \<Longrightarrow> p \<le> affectedFactor ap p"
  by (simp add: affectedFactor_def split: option.splits)

lemma affectedFactor_mono: "p \<le> q \<Longrightarrow> affectedFactor ap p \<le> affectedFactor ap q"
  by (simp add: affectedFactor_def split: option.splits)

lemma hoursOld_mono: "now1 \<le> now2 \<Longrightarrow> hoursOld r now1 \<le> hoursOld r now2"
  by (simp add: hoursOld_def divide_right_mono)

lemma js_round_mono: "x \<le> y \<Longrightarrow> js_round x \<le> js_round y"
  by (simp add: js_round_def floor_mono)

lemma js_round_ge_3: "5 / 2 \<le> x \<Longrightarrow> 3 \<le> js_round x"
proof -
  assume "5 / 2 \<le> x"
  then have "(3::rat) \<le> x + 1 / 2" by simp
  then have "\<lfloor>3::rat\<rfloor> \<le> \<lfloor>x + 1 / 2\<rfloor>" by (rule floor_mono)
  then show ?thesis by (simp add: js_round_def)
qed

lemma running_priority_ge:
  assumes "5 / 2 \<le> p1"
  shows "5 / 2 \<le> affectedFactor ap (timeFactor h (typeImpact ty p1))"
proof -
  have p1: "0 \<le> p1" using assms by simp
  have a: "p1 \<le> typeImpact ty p1" using p1 by (rule typeImpact_ge)
  then have a0: "0 \<le> typeImpact ty p1" using p1 by simp
  have b: "typeImpact ty p1 \<le> timeFactor h (typeImpact ty p1)" using a0 by (rule timeFactor_ge)
  then have b0: "0 \<le> timeFactor h (typeImpact ty p1)" using a0 by simp
  have c: "timeFactor h (typeImpact ty p1) \<le> affectedFactor ap (timeFactor h (typeImpact ty p1))"
    using b0 by (rule affectedFactor_ge)
  show ?thesis using assms a b c by simp
qed

text \<open>
  The claim that a report older than 48 hours gets the factor 1.5 alone fails: at 49
  hours a running priority of 5 becomes 9, not 7.5, and a medium flood report scores 9
  where the factor 1.5 alone would give 8.
\<close>

theorem timeFactor_both_tiers_counterexample:
  "(48::rat) < 49 \<and>
   timeFactor 49 5 = 9 \<and>
   timeFactor 49 5 \<noteq> 5 * 1.5 \<and>
   hoursOld \<lparr>report_type = ''flood'', report_severity = ''medium'', report_createdAt = 0,
              affectedPeople = None\<rparr> 176400000 = 49 \<and>
   calculatePriority \<lparr>report_type = ''flood'', report_severity = ''medium'',
      report_createdAt = 0, affectedPeople = None\<rparr> 176400000 = Some 9 \<and>
   min (js_round (5 * 1.5)) 10 = 8"
  by code_simp

text \<open>
  C1 (amended). The time factor is cumulative: up to 24 hours the running priority is
  unchanged, above 24 and up to 48 hours it is multiplied by 1.2, and above 48 hours it
  is multiplied by 1.2 and then by 1.5.
\<close>

theorem timeFactor_tiers:
  "(h \<le> 24 \<longrightarrow> timeFactor h p = p) \<and>
   (24 < h \<and> h \<le> 48 \<longrightarrow> timeFactor h p = p * 1.2) \<and>
   (48 < h \<longrightarrow> timeFactor h p = p * 1.2 * 1.5)"
  by (simp add: timeFactor_def Let_def)

text \<open>
  A running priority of 5 at 10, 30 and 49 hours.
\<close>

theorem timeFactor_tiers_witness:
  "(10::rat) \<le> 24 \<and> timeFactor 10 5 = 5 \<and>
   ((24::rat) < 30 \<and> (30::rat) \<le> 48) \<and> timeFactor 30 5 = 6 \<and>
   (48::rat) < 49 \<and> timeFactor 49 5 = 9"
proof -
  have h1: "(10::rat) \<le> 24" by simp
  have h2: "(24::rat) < 30 \<and> (30::rat) \<le> 48" by simp
  have h3: "(48::rat) < 49" by simp
  show ?thesis
    using h1 h2 h3 timeFactor_tiers [where h = 10 and p = 5]
      timeFactor_tiers [where h = 30 and p = 5] timeFactor_tiers [where h = 49 and p = 5]
    by simp
qed

text \<open>
  C4. For a report whose severity is one of the four levels, or any other string that
  is not a property name of \<open>Object.prototype\<close>, and for any type, age and number of
  affected people, the priority is an integer from 1 to 10.
\<close>

theorem calculatePriority_in_range:
  assumes "report_severity r \<notin> set object_prototype_keys"
  shows "\<exists>p. calculatePriority r now = Some p \<and> 1 \<le> p \<and> p \<le> 10"
proof -
  from severityImpact_defined [OF assms]
  obtain p1 where p1: "severityImpact (report_severity r) 5 = Some p1" "5 / 2 \<le> p1"
    by blast
  let ?x = "affectedFactor (affectedPeople r) (timeFactor (hoursOld r now) (typeImpact (report_type r) p1))"
  have "3 \<le> js_round ?x"
    using running_priority_ge [OF p1(2)] by (rule js_round_ge_3)
  then have "1 \<le> min (js_round ?x) 10" "min (js_round ?x) 10 \<le> 10" by simp_all
  then show ?thesis using p1(1) by (simp add: calculatePriority_def Let_def)
qed

text \<open>
  A high flood report, 30 hours old, with 15 people affected.
\<close>

theorem calculatePriority_in_range_witness:
  "report_severity \<lparr>report_type = ''flood'', report_severity = ''high'', report_createdAt = 0,
      affectedPeople = Some \<lparr>estimated = Some 15, confirmed = None\<rparr>\<rparr>
     \<notin> set object_prototype_keys \<and>
   calculatePriority \<lparr>report_type = ''flood'', report_severity = ''high'', report_createdAt = 0,
      affectedPeople = Some \<lparr>estimated = Some 15, confirmed = None\<rparr>\<rparr> 108000000 = Some 10"
proof -
  let ?r = "\<lparr>report_type = ''flood'', report_severity = ''high'', report_createdAt = 0,
      affectedPeople = Some \<lparr>estimated = Some 15, confirmed = None\<rparr>\<rparr>"
  have h: "report_severity ?r \<notin> set object_prototype_keys"
    by (simp add: object_prototype_keys_def)
  have v: "calculatePriority ?r 108000000 = Some 10"
    by code_simp
  show ?thesis
    using h v calculatePriority_in_range [OF h, where now = 108000000] by simp
qed

text \<open>
  C5. The priority never decreases with the time of evaluation: for the same report,
  with a severity that is not a property name of \<open>Object.prototype\<close>, and
  \<open>now1 \<le> now2\<close>, both evaluations return a number and the later priority is at
  least the earlier one.
\<close>

theorem calculatePriority_monotone:
  assumes "report_severity r \<notin> set object_prototype_keys" and "now1 \<le> now2"
  shows "\<exists>p q. calculatePriority r now1 = Some p \<and> calculatePriority r now2 = Some q \<and> p \<le> q"
proof -
  from severityImpact_defined [OF assms(1)]
  obtain p1 where p1: "severityImpact (report_severity r) 5 = Some p1" "5 / 2 \<le> p1"
    by blast
  let ?b = "typeImpact (report_type r) p1"
  have "0 \<le> p1" using p1(2) by simp
  then have b0: "0 \<le> ?b" using typeImpact_ge [of p1 "report_type r"] by simp
  have "timeFactor (hoursOld r now1) ?b \<le> timeFactor (hoursOld r now2) ?b"
    using b0 hoursOld_mono [OF assms(2)] by (rule timeFactor_mono)
  then have "affectedFactor (affectedPeople r) (timeFactor (hoursOld r now1) ?b)
      \<le> affectedFactor (affectedPeople r) (timeFactor (hoursOld r now2) ?b)"
    by (rule affectedFactor_mono)
  then have "js_round (affectedFactor (affectedPeople r) (timeFactor (hoursOld r now1) ?b))
      \<le> js_round (affectedFactor (affectedPeople r) (timeFactor (hoursOld r now2) ?b))"
    by (rule js_round_mono)
  then show ?thesis using p1(1) by (simp add: calculatePriority_def Let_def)
qed

text \<open>
  A medium flood report after one hour and after 49 hours.
\<close>

theorem calculatePriority_monotone_witness:
  "report_severity \<lparr>report_type = ''flood'', report_severity = ''medium'', report_createdAt = 0,
      affectedPeople = None\<rparr> \<notin> set object_prototype_keys \<and>
   (3600000::int) \<le> 176400000 \<and>
   calculatePriority \<lparr>report_type = ''flood'', report_severity = ''medium'',
      report_createdAt = 0, affectedPeople = None\<rparr> 3600000 = Some 5 \<and>
   calculatePriority \<lparr>report_type = ''flood'', report_severity = ''medium'',
      report_createdAt = 0, affectedPeople = None\<rparr> 176400000 = Some 9 \<and>
   (5::int) \<le> 9"
proof -
  let ?r = "\<lparr>report_type = ''flood'', report_severity = ''medium'', report_createdAt = 0,
      affectedPeople = None\<rparr>"
  have h1: "report_severity ?r \<notin> set object_prototype_keys"
    by (simp add: object_prototype_keys_def)
  have h2: "(3600000::int) \<le> 176400000" by simp
  have v1: "calculatePriority ?r 3600000 = Some 5" by code_simp
  have v2: "calculatePriority ?r 176400000 = Some 9" by code_simp
  show ?thesis
    using h1 h2 v1 v2 calculatePriority_monotone [OF h1 h2] by simp
qed

text \<open>
  C10. For a report whose severity is not a property name of \<open>Object.prototype\<close> the
  priority is at least 3, and 3 is reached: a fresh report of low severity has the
  product 5 * 0.5 = 2.5, which rounds to 3.
\<close>

theorem calculatePriority_at_least_3:
  "(report_severity r \<notin> set object_prototype_keys \<longrightarrow>
      (\<exists>p. calculatePriority r now = Some p \<and> 3 \<le> p)) \<and>
   calculatePriority \<lparr>report_type = ''other'', report_severity = ''low'', report_createdAt = 0,
      affectedPeople = None\<rparr> 0 = Some 3"
proof -
  have low: "calculatePriority \<lparr>report_type = ''other'', report_severity = ''low'',
      report_createdAt = 0, affectedPeople = None\<rparr> 0 = Some 3"
    by (simp add: calculatePriority_def severityImpact_def js_get_def severityMultiplier_def
        typeImpact_def highPriorityTypes_def hoursOld_def timeFactor_def affectedFactor_def
        js_round_def Let_def)
  have bound: "\<exists>p. calculatePriority r now = Some p \<and> 3 \<le> p"
    if ok: "report_severity r \<notin> set object_prototype_keys"
  proof -
    from severityImpact_defined [OF ok]
    obtain p1 where p1: "severityImpact (report_severity r) 5 = Some p1" "5 / 2 \<le> p1"
      by blast
    let ?x = "affectedFactor (affectedPeople r)
                (timeFactor (hoursOld r now) (typeImpact (report_type r) p1))"
    have "3 \<le> js_round ?x"
      using running_priority_ge [OF p1(2)] by (rule js_round_ge_3)
    then have "3 \<le> min (js_round ?x) 10" by simp
    then show ?thesis using p1(1) by (simp add: calculatePriority_def Let_def)
  qed
  from low bound show ?thesis by blast
qed

text \<open>
  A low tree_fall report, one hour old, with 2 people affected.
\<close>

theorem calculatePriority_at_least_3_witness:
  "report_severity \<lparr>report_type = ''tree_fall'', report_severity = ''low'', report_createdAt = 5000,
      affectedPeople = Some \<lparr>estimated = Some 2, confirmed = None\<rparr>\<rparr>
     \<notin> set object_prototype_keys \<and>
   calculatePriority \<lparr>report_type = ''tree_fall'', report_severity = ''low'',
      report_createdAt = 5000,
      affectedPeople = Some \<lparr>estimated = Some 2, confirmed = None\<rparr>\<rparr> 3605000 = Some 3"
proof -
  let ?r = "\<lparr>report_type = ''tree_fall'', report_severity = ''low'', report_createdAt = 5000,
      affectedPeople = Some \<lparr>estimated = Some 2, confirmed = None\<rparr>\<rparr>"
  have h: "report_severity ?r \<notin> set object_prototype_keys"
    by (simp add: object_prototype_keys_def)
  have v: "calculatePriority ?r 3605000 = Some 3" by code_simp
  show ?thesis
    using h v calculatePriority_at_least_3 [where r = ?r and now = 3605000] by simp
qed

end
